theory Spec2Isabelle
  imports Complex_Main "HOL-Library.Sublist"
begin

section \<open>Network switching and contract invocation of chatbot.py\<close>

text \<open>
  The module keeps four globals (\<open>wallet_provider\<close>, \<open>current_chain_id\<close>,
  \<open>wallet_providers_cache\<close>, \<open>agentkit\<close>) and talks to external collaborators:
  the wallet provider class and the agent kit of the library, the language-model stack,
  and the file \<open>wallet_data.txt\<close>. The globals and the file are the fields of the record
  \<open>state\<close>; every function that reads or writes a global takes the state and returns
  the new one. What the collaborators answer is not decided by this module, so it is a
  parameter \<open>env\<close> of every function that calls them. Each external call is written to
  \<open>io_log\<close>, which makes "no call was made" a statement about the log.

  An exception of Python's class \<open>Exception\<close> is a value of type \<open>exn\<close>; a function
  whose source can raise returns \<open>exn + 'a\<close>, with \<open>Inl\<close> for the raise. Signals
  that are not instances of \<open>Exception\<close> (a keyboard interrupt, interpreter exit) and
  the \<open>print\<close> calls of the source are outside the model; the local file is taken to be
  readable and writable.
\<close>

subsection \<open>Values\<close>

datatype exn = ValueError string | KeyError string | AttributeError string | Exception string

text \<open>\<open>str(e)\<close>; for a \<open>KeyError\<close> it is the key in quotes.\<close>

fun str :: "exn \<Rightarrow> string" where
  "str (ValueError m) = m"
| "str (KeyError k) = [CHR 0x27] @ k @ [CHR 0x27]"
| "str (AttributeError m) = m"
| "str (Exception m) = m"

text \<open>
  The values that travel through argument lists and result dictionaries: a string, an
  integer, or an object of a library class, which the module only ever formats into a
  message (it is kept as what \<open>str()\<close> gives for it).
\<close>

datatype pyval = Str string | Num int | Obj string

datatype provider = Provider nat

datatype agentkit_obj = AgentKitObj nat

record network =
  chain_id :: string
  network_id :: "string option"

record cdp_config =
  wallet_data :: "string option"
  default_chain_id :: "string option"

type_synonym py_dict = "(string \<times> pyval) list"

subsection \<open>SUPPORTED_CHAINS and DEFAULT_CHAIN_ID\<close>

record chain_info =
  name :: string
  contract_address :: string
  explorer_url :: string

definition SUPPORTED_CHAINS :: "(string \<times> chain_info) list" where
  "SUPPORTED_CHAINS =
   [(''84532'', \<lparr>name = ''Base Sepolia'',
        contract_address = ''0xEBE8Ca83dfFeaa2288a70B4f1e29EcD089d325E2'',
        explorer_url = ''https://sepolia.basescan.org''\<rparr>),
    (''11155111'', \<lparr>name = ''Ethereum Sepolia'',
        contract_address = ''0xEBE8Ca83dfFeaa2288a70B4f1e29EcD089d325E2'',
        explorer_url = ''https://sepolia.etherscan.io''\<rparr>),
    (''421614'', \<lparr>name = ''Arbitrum Sepolia'',
        contract_address = ''0xEBE8Ca83dfFeaa2288a70B4f1e29EcD089d325E2'',
        explorer_url = ''https://sepolia.arbiscan.io''\<rparr>),
    (''11155420'', \<lparr>name = ''Optimism Sepolia'',
        contract_address = ''0xEBE8Ca83dfFeaa2288a70B4f1e29EcD089d325E2'',
        explorer_url = ''https://sepolia-optimism.etherscan.io''\<rparr>),
    (''8453'', \<lparr>name = ''Base Mainnet'',
        contract_address = ''0xEBE8Ca83dfFeaa2288a70B4f1e29EcD089d325E2'',
        explorer_url = ''https://basescan.org''\<rparr>),
    (''1'', \<lparr>name = ''Ethereum Mainnet'',
        contract_address = ''0xEBE8Ca83dfFeaa2288a70B4f1e29EcD089d325E2'',
        explorer_url = ''https://etherscan.io''\<rparr>),
    (''42161'', \<lparr>name = ''Arbitrum One'',
        contract_address = ''0xEBE8Ca83dfFeaa2288a70B4f1e29EcD089d325E2'',
        explorer_url = ''https://arbiscan.io''\<rparr>),
    (''10'', \<lparr>name = ''Optimism'',
        contract_address = ''0xEBE8Ca83dfFeaa2288a70B4f1e29EcD089d325E2'',
        explorer_url = ''https://optimistic.etherscan.io''\<rparr>),
    (''80001'', \<lparr>name = ''Polygon Mumbai'',
        contract_address = ''0xEBE8Ca83dfFeaa2288a70B4f1e29EcD089d325E2'',
        explorer_url = ''https://mumbai.polygonscan.com''\<rparr>),
    (''137'', \<lparr>name = ''Polygon'',
        contract_address = ''0xEBE8Ca83dfFeaa2288a70B4f1e29EcD089d325E2'',
        explorer_url = ''https://polygonscan.com''\<rparr>)]"

definition DEFAULT_CHAIN_ID :: string where
  "DEFAULT_CHAIN_ID = ''84532''"

text \<open>\<open>SUPPORTED_CHAINS.keys()\<close>, in the order of the dictionary literal.\<close>

definition keys :: "(string \<times> 'v) list \<Rightarrow> string list" where
  "keys d = map fst d"

text \<open>\<open>sep.join(xs)\<close>.\<close>

fun join :: "string \<Rightarrow> string list \<Rightarrow> string" where
  "join sep [] = []"
| "join sep [x] = x"
| "join sep (x # y # ys) = x @ sep @ join sep (y # ys)"

subsection \<open>CROSSCHAIN_CONTRACT_ABI\<close>

text \<open>
  An entry keeps the name, the inputs as (name, type), the output types and the state
  mutability; \<open>internalType\<close> repeats \<open>type\<close> in every entry of the source.
\<close>

datatype abi_entry =
  AbiConstructor "(string \<times> string) list" string
| AbiFunction string "(string \<times> string) list" "string list" string

definition CROSSCHAIN_CONTRACT_ABI :: "abi_entry list" where
  "CROSSCHAIN_CONTRACT_ABI =
   [AbiConstructor [(''_aiAgent'', ''address''), (''_owner'', ''address'')] ''nonpayable'',
    AbiFunction ''aiAgent'' [] [''address''] ''view'',
    AbiFunction ''allowance'' [(''owner'', ''address''), (''spender'', ''address'')]
       [''uint256''] ''view'',
    AbiFunction ''approve'' [(''spender'', ''address''), (''value'', ''uint256'')]
       [''bool''] ''nonpayable'',
    AbiFunction ''balanceOf'' [(''account'', ''address'')] [''uint256''] ''view'',
    AbiFunction ''crosschainBurn'' [(''from'', ''address''), (''amount'', ''uint256'')]
       [] ''nonpayable'',
    AbiFunction ''crosschainMint'' [(''to'', ''address''), (''amount'', ''uint256'')]
       [] ''nonpayable'',
    AbiFunction ''decimals'' [] [''uint8''] ''view'',
    AbiFunction ''deposit'' [] [] ''payable'',
    AbiFunction ''name'' [] [''string''] ''view'',
    AbiFunction ''owner'' [] [''address''] ''view'',
    AbiFunction ''renounceOwnership'' [] [] ''nonpayable'',
    AbiFunction ''symbol'' [] [''string''] ''view'',
    AbiFunction ''totalSupply'' [] [''uint256''] ''view'',
    AbiFunction ''transfer'' [(''to'', ''address''), (''value'', ''uint256'')]
       [''bool''] ''nonpayable'',
    AbiFunction ''transferFrom''
       [(''from'', ''address''), (''to'', ''address''), (''value'', ''uint256'')]
       [''bool''] ''nonpayable'',
    AbiFunction ''transferOwnership'' [(''newOwner'', ''address'')] [] ''nonpayable'',
    AbiFunction ''withdraw'' [(''amount'', ''uint256'')] [] ''nonpayable'']"

subsection \<open>Globals, the log of external calls, the environment\<close>

datatype event =
  ReadFile
| WriteFile string
| NewProvider cdp_config
| GetNetwork provider
| GetBalance provider
| ExportWallet provider
| TransactContract provider string "abi_entry list" string "pyval list" int
| WaitReceipt provider string
| ReadContract provider string "abi_entry list" string "pyval list"
| NewAgentKit provider
| NewLLM
| GetTools agentkit_obj
| NewAgent

record state =
  wallet_provider :: "provider option"
  current_chain_id :: string
  wallet_providers_cache :: "string \<rightharpoonup> provider"
  agentkit :: "agentkit_obj option"
  wallet_data_txt :: "string option"
  io_log :: "event list"

text \<open>
  The part of the log written between two states, and two kinds of entry: a write of the
  wallet file, and the construction of a provider.
\<close>

definition events_since :: "state \<Rightarrow> state \<Rightarrow> event list" where
  "events_since s s' = drop (length (io_log s)) (io_log s')"

fun persistence_write :: "event \<Rightarrow> bool" where
  "persistence_write (WriteFile d) = True"
| "persistence_write _ = False"

fun provider_construction :: "event \<Rightarrow> bool" where
  "provider_construction (NewProvider cfg) = True"
| "provider_construction _ = False"

text \<open>The state of the module when it has been loaded.\<close>

definition initial_state :: "string option \<Rightarrow> state" where
  "initial_state file =
     \<lparr>wallet_provider = None, current_chain_id = DEFAULT_CHAIN_ID,
      wallet_providers_cache = Map.empty, agentkit = None,
      wallet_data_txt = file, io_log = []\<rparr>"

text \<open>
  The answers of the collaborators. The last argument of each is the number of external
  calls made so far, so the same call may be answered differently the next time (a
  provider that was reachable and no longer is). \<open>export_wallet\<close> stands for
  \<open>json.dumps(provider.export_wallet().to_dict())\<close>, \<open>transact_contract\<close> for the
  call and the read of \<open>result.tx_hash\<close>, \<open>AgentKit\<close> for the construction of the
  kit with its eight action providers, and \<open>truthy p\<close> is what \<open>not p\<close> tests.
\<close>

record env =
  CdpWalletProvider :: "cdp_config \<Rightarrow> nat \<Rightarrow> exn + provider"
  truthy :: "provider \<Rightarrow> bool"
  get_network :: "provider \<Rightarrow> nat \<Rightarrow> exn + network"
  get_balance :: "provider \<Rightarrow> nat \<Rightarrow> exn + int"
  export_wallet :: "provider \<Rightarrow> nat \<Rightarrow> exn + string"
  transact_contract ::
    "provider \<Rightarrow> string \<Rightarrow> abi_entry list \<Rightarrow> string \<Rightarrow> pyval list \<Rightarrow> int \<Rightarrow> nat \<Rightarrow> exn + string"
  wait_for_transaction_receipt :: "provider \<Rightarrow> string \<Rightarrow> nat \<Rightarrow> exn + pyval"
  provider_read_contract ::
    "provider \<Rightarrow> string \<Rightarrow> abi_entry list \<Rightarrow> string \<Rightarrow> pyval list \<Rightarrow> nat \<Rightarrow> exn + pyval"
  AgentKit :: "provider \<Rightarrow> nat \<Rightarrow> exn + agentkit_obj"
  ChatOpenAI :: "nat \<Rightarrow> exn option"
  get_langchain_tools :: "agentkit_obj \<Rightarrow> nat \<Rightarrow> exn option"
  create_react_agent :: "nat \<Rightarrow> exn option"

definition clock :: "state \<Rightarrow> nat" where
  "clock s = length (io_log s)"

definition emit :: "event \<Rightarrow> state \<Rightarrow> state" where
  "emit e s = s\<lparr>io_log := io_log s @ [e]\<rparr>"

text \<open>One definition per external call: the answer, and the state with the call logged.\<close>

definition call_CdpWalletProvider ::
  "env \<Rightarrow> cdp_config \<Rightarrow> state \<Rightarrow> (exn + provider) \<times> state" where
  "call_CdpWalletProvider env cfg s =
     (CdpWalletProvider env cfg (clock s), emit (NewProvider cfg) s)"

definition call_get_network :: "env \<Rightarrow> provider \<Rightarrow> state \<Rightarrow> (exn + network) \<times> state" where
  "call_get_network env p s = (get_network env p (clock s), emit (GetNetwork p) s)"

definition call_get_balance :: "env \<Rightarrow> provider \<Rightarrow> state \<Rightarrow> (exn + int) \<times> state" where
  "call_get_balance env p s = (get_balance env p (clock s), emit (GetBalance p) s)"

definition call_export_wallet :: "env \<Rightarrow> provider \<Rightarrow> state \<Rightarrow> (exn + string) \<times> state" where
  "call_export_wallet env p s = (export_wallet env p (clock s), emit (ExportWallet p) s)"

definition call_transact_contract ::
  "env \<Rightarrow> provider \<Rightarrow> string \<Rightarrow> abi_entry list \<Rightarrow> string \<Rightarrow> pyval list \<Rightarrow> int \<Rightarrow> state
     \<Rightarrow> (exn + string) \<times> state" where
  "call_transact_contract env p addr abi fn args v s =
     (transact_contract env p addr abi fn args v (clock s),
      emit (TransactContract p addr abi fn args v) s)"

definition call_wait_for_transaction_receipt ::
  "env \<Rightarrow> provider \<Rightarrow> string \<Rightarrow> state \<Rightarrow> (exn + pyval) \<times> state" where
  "call_wait_for_transaction_receipt env p h s =
     (wait_for_transaction_receipt env p h (clock s), emit (WaitReceipt p h) s)"

definition call_read_contract ::
  "env \<Rightarrow> provider \<Rightarrow> string \<Rightarrow> abi_entry list \<Rightarrow> string \<Rightarrow> pyval list \<Rightarrow> state
     \<Rightarrow> (exn + pyval) \<times> state" where
  "call_read_contract env p addr abi fn args s =
     (provider_read_contract env p addr abi fn args (clock s),
      emit (ReadContract p addr abi fn args) s)"

definition call_AgentKit :: "env \<Rightarrow> provider \<Rightarrow> state \<Rightarrow> (exn + agentkit_obj) \<times> state" where
  "call_AgentKit env p s = (AgentKit env p (clock s), emit (NewAgentKit p) s)"

text \<open>\<open>open(wallet_data_file, "r").read()\<close> and \<open>open(wallet_data_file, "w").write(d)\<close>.\<close>

definition read_wallet_data :: "state \<Rightarrow> string option \<times> state" where
  "read_wallet_data s =
     (case wallet_data_txt s of
        None \<Rightarrow> (None, s)
      | Some d \<Rightarrow> (Some d, emit ReadFile s))"

definition write_wallet_data :: "string \<Rightarrow> state \<Rightarrow> state" where
  "write_wallet_data d s = emit (WriteFile d) (s\<lparr>wallet_data_txt := Some d\<rparr>)"

subsection \<open>Chain utilities\<close>

definition not_supported :: "string \<Rightarrow> exn" where
  "not_supported cid = ValueError (''Chain ID '' @ cid @ '' not supported'')"

definition get_contract_address :: "state \<Rightarrow> exn + string" where
  "get_contract_address s =
     (case map_of SUPPORTED_CHAINS (current_chain_id s) of
        Some info \<Rightarrow> Inr (contract_address info)
      | None \<Rightarrow> Inl (not_supported (current_chain_id s)))"

definition get_chain_name :: "state \<Rightarrow> exn + string" where
  "get_chain_name s =
     (case map_of SUPPORTED_CHAINS (current_chain_id s) of
        Some info \<Rightarrow> Inr (name info)
      | None \<Rightarrow> Inl (not_supported (current_chain_id s)))"

definition get_explorer_url :: "state \<Rightarrow> exn + string" where
  "get_explorer_url s =
     (case map_of SUPPORTED_CHAINS (current_chain_id s) of
        Some info \<Rightarrow> Inr (explorer_url info)
      | None \<Rightarrow> Inl (not_supported (current_chain_id s)))"

subsection \<open>The provider cache\<close>

text \<open>
  A provider whose reported chain differs from the requested one is only warned about
  (a \<open>print\<close>); it is cached and returned like any other.
\<close>

definition get_cdp_wallet_provider_for_chain ::
  "env \<Rightarrow> string \<Rightarrow> state \<Rightarrow> (exn + provider) \<times> state" where
  "get_cdp_wallet_provider_for_chain env cid s =
     (case wallet_providers_cache s cid of
        Some p \<Rightarrow> (Inr p, s)
      | None \<Rightarrow>
          (case read_wallet_data s of (data, s1) \<Rightarrow>
           (case call_CdpWalletProvider env
                   \<lparr>wallet_data = data, default_chain_id = Some cid\<rparr> s1 of
              (Inl e, s2) \<Rightarrow> (Inl e, s2)
            | (Inr p, s2) \<Rightarrow>
               (case call_get_network env p s2 of
                  (Inl e, s3) \<Rightarrow> (Inl e, s3)
                | (Inr net, s3) \<Rightarrow>
                   (case call_export_wallet env p
                           (s3\<lparr>wallet_providers_cache :=
                                  (wallet_providers_cache s3)(cid \<mapsto> p)\<rparr>) of
                      (Inl e, s4) \<Rightarrow> (Inl e, s4)
                    | (Inr updated_data, s4) \<Rightarrow>
                        (Inr p, write_wallet_data updated_data s4))))))"

subsection \<open>Network switching\<close>

text \<open>The body of the \<open>try\<close> block of \<open>switch_network\<close>; \<open>Inl\<close> is a raise inside it.\<close>

definition switch_network_try :: "env \<Rightarrow> string \<Rightarrow> state \<Rightarrow> (exn + string) \<times> state" where
  "switch_network_try env new_chain_id s =
     (case get_cdp_wallet_provider_for_chain env new_chain_id
             (if wallet_providers_cache s new_chain_id \<noteq> None
              then s\<lparr>wallet_providers_cache := (wallet_providers_cache s)(new_chain_id := None)\<rparr>
              else s) of
        (Inl e, s1) \<Rightarrow> (Inl e, s1)
      | (Inr new_provider, s1) \<Rightarrow>
         if \<not> truthy env new_provider then
           (Inr (''Error: Could not create a wallet provider for chain '' @ new_chain_id), s1)
         else
          (case call_get_network env new_provider s1 of
             (Inl e, s2) \<Rightarrow> (Inl e, s2)
           | (Inr net, s2) \<Rightarrow>
              if chain_id net \<noteq> new_chain_id then
                (Inr (''Error: Provider chain mismatch. Expected '' @ new_chain_id
                        @ '', got '' @ chain_id net), s2)
              else
               (case call_get_balance env new_provider s2 of
                  (Inl e, s3) \<Rightarrow>
                    (case map_of SUPPORTED_CHAINS new_chain_id of
                       None \<Rightarrow> (Inl (KeyError new_chain_id), s3)
                     | Some info \<Rightarrow>
                         (Inr (''Error connecting to '' @ name info @ '': '' @ str e), s3))
                | (Inr native_balance, s3) \<Rightarrow>
                   (case call_AgentKit env new_provider
                           (s3\<lparr>current_chain_id := new_chain_id,
                               wallet_provider := Some new_provider\<rparr>) of
                      (Inl e, s4) \<Rightarrow> (Inl e, s4)
                    | (Inr kit, s4) \<Rightarrow>
                       (case call_get_network env new_provider (s4\<lparr>agentkit := Some kit\<rparr>) of
                          (Inl e, s5) \<Rightarrow> (Inl e, s5)
                        | (Inr actual_net, s5) \<Rightarrow>
                           (case get_chain_name s5 of
                              Inl e \<Rightarrow> (Inl e, s5)
                            | Inr nm \<Rightarrow>
                               (Inr (''Switched to '' @ nm @ '' (Chain ID: ''
                                       @ current_chain_id s5 @ '')''), s5)))))))"

definition switch_network :: "env \<Rightarrow> string \<Rightarrow> state \<Rightarrow> (exn + string) \<times> state" where
  "switch_network env new_chain_id s =
     (if new_chain_id \<notin> set (keys SUPPORTED_CHAINS) then
        (Inr (''Error: Chain ID '' @ new_chain_id @ '' not supported. Must be one of: ''
                @ join '', '' (keys SUPPORTED_CHAINS)), s)
      else if new_chain_id = current_chain_id s then
        (case get_chain_name s of
           Inl e \<Rightarrow> (Inl e, s)
         | Inr nm \<Rightarrow>
             (Inr (''Already on '' @ nm @ '' (Chain ID: '' @ current_chain_id s @ '')''), s))
      else
        (case switch_network_try env new_chain_id s of
           (Inl e, s') \<Rightarrow>
             (Inr (''Error switching to chain '' @ new_chain_id @ '': '' @ str e), s')
         | (Inr r, s') \<Rightarrow> (Inr r, s')))"


subsection \<open>Formatting\<close>

text \<open>\<open>str(n)\<close> for an integer, as an f-string formats it.\<close>

fun str_nat :: "nat \<Rightarrow> string" where
  "str_nat n = (if n < 10 then [''0123456789'' ! n]
                else str_nat (n div 10) @ [''0123456789'' ! (n mod 10)])"

declare str_nat.simps [simp del]

definition str_int :: "int \<Rightarrow> string" where
  "str_int i = (if i < 0 then ''-'' @ str_nat (nat (- i)) else str_nat (nat i))"


text \<open>Calling a method on \<open>None\<close>.\<close>

definition NoneType_has_no :: "string \<Rightarrow> exn" where
  "NoneType_has_no attr =
     AttributeError ([CHR 0x27] @ ''NoneType'' @ [CHR 0x27] @ '' object has no attribute ''
                     @ [CHR 0x27] @ attr @ [CHR 0x27])"

subsection \<open>Contract invocation\<close>

text \<open>
  A \<open>Decimal\<close> is a rational number here: the finite values, within the precision of
  the decimal context, on which the module's one multiplication is exact. \<open>int(x)\<close>
  truncates towards zero.
\<close>

definition py_int :: "rat \<Rightarrow> int" where
  "py_int x = (if 0 \<le> x then \<lfloor>x\<rfloor> else \<lceil>x\<rceil>)"

text \<open>The body of the \<open>try\<close> block of \<open>invoke_contract_function\<close>.\<close>

definition invoke_contract_function_try ::
  "env \<Rightarrow> provider option \<Rightarrow> string \<Rightarrow> pyval list option \<Rightarrow> rat \<Rightarrow> state
     \<Rightarrow> (exn + py_dict) \<times> state" where
  "invoke_contract_function_try env provider function_name args v s =
     (case provider of
        None \<Rightarrow> (Inl (NoneType_has_no ''get_network''), s)
      | Some p \<Rightarrow>
         (case call_get_network env p s of
            (Inl e, s1) \<Rightarrow> (Inl e, s1)
          | (Inr net, s1) \<Rightarrow>
             if chain_id net \<noteq> current_chain_id s1 then
               (Inr [(''error'', Str (''Chain mismatch: Wallet on chain '' @ chain_id net
                                      @ '', but global chain is '' @ current_chain_id s1))],
                s1)
             else
              (case get_contract_address s1 of
                 Inl e \<Rightarrow> (Inl e, s1)
               | Inr addr \<Rightarrow>
                  (case call_transact_contract env p addr CROSSCHAIN_CONTRACT_ABI
                          function_name (case args of None \<Rightarrow> [] | Some a \<Rightarrow> a)
                          (if v > 0 then py_int (v * 10 ^ 18) else 0) s1 of
                     (Inl e, s2) \<Rightarrow> (Inl e, s2)
                   | (Inr tx_hash, s2) \<Rightarrow>
                      (case call_wait_for_transaction_receipt env p tx_hash s2 of
                         (Inl e, s3) \<Rightarrow> (Inl e, s3)
                       | (Inr receipt, s3) \<Rightarrow>
                          (case get_chain_name s3 of
                             Inl e \<Rightarrow> (Inl e, s3)
                           | Inr chain_name \<Rightarrow>
                              (case get_explorer_url s3 of
                                 Inl e \<Rightarrow> (Inl e, s3)
                               | Inr url \<Rightarrow>
                                  (Inr [(''tx_hash'', Str tx_hash),
                                        (''receipt'', receipt),
                                        (''chain_id'', Str (current_chain_id s3)),
                                        (''chain_name'', Str chain_name),
                                        (''explorer_url'', Str (url @ ''/tx/'' @ tx_hash))],
                                   s3))))))))"

text \<open>
  The whole function: the \<open>try\<close> block and its handler \<open>except Exception as e\<close>.
  The result type still has a place for an exception that leaves the function.
\<close>

definition invoke_contract_function ::
  "env \<Rightarrow> provider option \<Rightarrow> string \<Rightarrow> pyval list option \<Rightarrow> rat \<Rightarrow> state
     \<Rightarrow> (exn + py_dict) \<times> state" where
  "invoke_contract_function env provider function_name args v s =
     (case invoke_contract_function_try env provider function_name args v s of
        (Inl e, s') \<Rightarrow> (Inr [(''error'', Str (str e))], s')
      | (Inr d, s') \<Rightarrow> (Inr d, s'))"

definition read_contract_try ::
  "env \<Rightarrow> provider option \<Rightarrow> string \<Rightarrow> pyval list option \<Rightarrow> state
     \<Rightarrow> (exn + py_dict) \<times> state" where
  "read_contract_try env provider function_name args s =
     (case provider of
        None \<Rightarrow> (Inl (NoneType_has_no ''get_network''), s)
      | Some p \<Rightarrow>
         (case call_get_network env p s of
            (Inl e, s1) \<Rightarrow> (Inl e, s1)
          | (Inr net, s1) \<Rightarrow>
             if chain_id net \<noteq> current_chain_id s1 then
               (Inr [(''error'', Str (''Chain mismatch: provider on chain '' @ chain_id net
                                      @ '', global chain is '' @ current_chain_id s1))],
                s1)
             else
              (case get_contract_address s1 of
                 Inl e \<Rightarrow> (Inl e, s1)
               | Inr addr \<Rightarrow>
                  (case call_read_contract env p addr CROSSCHAIN_CONTRACT_ABI
                          function_name (case args of None \<Rightarrow> [] | Some a \<Rightarrow> a) s1 of
                     (Inl e, s2) \<Rightarrow> (Inl e, s2)
                   | (Inr result, s2) \<Rightarrow>
                      (case get_chain_name s2 of
                         Inl e \<Rightarrow> (Inl e, s2)
                       | Inr chain_name \<Rightarrow>
                          (Inr [(''result'', result),
                                (''chain_id'', Str (current_chain_id s2)),
                                (''chain_name'', Str chain_name)],
                           s2))))))"

definition read_contract ::
  "env \<Rightarrow> provider option \<Rightarrow> string \<Rightarrow> pyval list option \<Rightarrow> state
     \<Rightarrow> (exn + py_dict) \<times> state" where
  "read_contract env provider function_name args s =
     (case read_contract_try env provider function_name args s of
        (Inl e, s') \<Rightarrow> (Inr [(''error'', Str (str e))], s')
      | (Inr d, s') \<Rightarrow> (Inr d, s'))"

subsection \<open>Mint and burn\<close>




subsection \<open>Start-up\<close>

definition call_ChatOpenAI :: "env \<Rightarrow> state \<Rightarrow> exn option \<times> state" where
  "call_ChatOpenAI env s = (ChatOpenAI env (clock s), emit NewLLM s)"

definition call_get_langchain_tools :: "env \<Rightarrow> agentkit_obj \<Rightarrow> state \<Rightarrow> exn option \<times> state" where
  "call_get_langchain_tools env kit s =
     (get_langchain_tools env kit (clock s), emit (GetTools kit) s)"

definition call_create_react_agent :: "env \<Rightarrow> state \<Rightarrow> exn option \<times> state" where
  "call_create_react_agent env s = (create_react_agent env (clock s), emit NewAgent s)"

text \<open>
  \<open>initialize_agent\<close> has no \<open>try\<close>: whatever a collaborator raises leaves the
  function. It opens the file for writing before it asks the provider for the export,
  so a failing export leaves the file empty.
\<close>

definition initialize_agent :: "env \<Rightarrow> state \<Rightarrow> (exn + unit) \<times> state" where
  "initialize_agent env s =
     (case call_ChatOpenAI env s of
        (Some e, s1) \<Rightarrow> (Inl e, s1)
      | (None, s1) \<Rightarrow>
         (case read_wallet_data s1 of (data, s2) \<Rightarrow>
          (case call_CdpWalletProvider env
                  \<lparr>wallet_data = data, default_chain_id = None\<rparr> s2 of
             (Inl e, s3) \<Rightarrow> (Inl e, s3)
           | (Inr p, s3) \<Rightarrow>
              (case call_export_wallet env p
                      (s3\<lparr>wallet_provider := Some p, wallet_data_txt := Some []\<rparr>) of
                 (Inl e, s4) \<Rightarrow> (Inl e, s4)
               | (Inr new_data, s4) \<Rightarrow>
                  (case call_get_network env p (write_wallet_data new_data s4) of
                     (Inl e, s5) \<Rightarrow> (Inl e, s5)
                   | (Inr net, s5) \<Rightarrow>
                      (case call_AgentKit env p s5 of
                         (Inl e, s6) \<Rightarrow> (Inl e, s6)
                       | (Inr kit, s6) \<Rightarrow>
                          (case call_get_langchain_tools env kit (s6\<lparr>agentkit := Some kit\<rparr>) of
                             (Some e, s7) \<Rightarrow> (Inl e, s7)
                           | (None, s7) \<Rightarrow>
                              (case call_create_react_agent env s7 of
                                 (Some e, s8) \<Rightarrow> (Inl e, s8)
                               | (None, s8) \<Rightarrow> (Inr (), s8)))))))))"

subsection \<open>Checking every chain\<close>

text \<open>One turn of the loop of \<open>verify_all_chains\<close>: the \<open>try\<close> block and its handler.\<close>

definition verify_chain_try ::
  "env \<Rightarrow> string \<Rightarrow> chain_info \<Rightarrow> state \<Rightarrow> (exn + string) \<times> state" where
  "verify_chain_try env cid info s =
     (case get_cdp_wallet_provider_for_chain env cid s of
        (Inl e, s1) \<Rightarrow> (Inl e, s1)
      | (Inr prov, s1) \<Rightarrow>
         (case call_get_network env prov s1 of
            (Inl e, s2) \<Rightarrow> (Inl e, s2)
          | (Inr net, s2) \<Rightarrow>
             (case call_get_balance env prov s2 of
                (Inl e, s3) \<Rightarrow> (Inl e, s3)
              | (Inr bal, s3) \<Rightarrow>
                 (Inr ([CHR 0xE2, CHR 0x9C, CHR 0x85] @ '' '' @ name info @ '' (Chain '' @ cid
                        @ ''): got balance '' @ str_int bal @ '' wei''), s3))))"

definition verify_chain :: "env \<Rightarrow> string \<Rightarrow> chain_info \<Rightarrow> state \<Rightarrow> string \<times> state" where
  "verify_chain env cid info s =
     (case verify_chain_try env cid info s of
        (Inl e, s') \<Rightarrow>
          ([CHR 0xE2, CHR 0x9D, CHR 0x8C] @ '' '' @ name info @ '' (Chain '' @ cid @ ''): ''
             @ str e, s')
      | (Inr line, s') \<Rightarrow> (line, s'))"

fun verify_chains_loop ::
  "env \<Rightarrow> (string \<times> chain_info) list \<Rightarrow> state \<Rightarrow> string list \<times> state" where
  "verify_chains_loop env [] s = ([], s)"
| "verify_chains_loop env ((cid, info) # rest) s =
     (case verify_chain env cid info s of (line, s1) \<Rightarrow>
      (case verify_chains_loop env rest s1 of (lines, s2) \<Rightarrow> (line # lines, s2)))"

definition verify_all_chains :: "env \<Rightarrow> state \<Rightarrow> (exn + string) \<times> state" where
  "verify_all_chains env s =
     (case get_chain_name s of
        Inl e \<Rightarrow> (Inl e, s)
      | Inr nm \<Rightarrow>
         (case verify_chains_loop env SUPPORTED_CHAINS s of (lines, s') \<Rightarrow>
            (Inr (join [CHR 0x0A]
                    ((''Current chain in global state: '' @ nm @ '' (ID=''
                        @ current_chain_id s @ '')'') # lines)), s')))"

subsection \<open>Bridging\<close>


subsection \<open>Reachable states\<close>

text \<open>
  The states the module can be in: the loaded module, and from any state the result of
  one of its functions, with any arguments and any answers of the collaborators. The
  remaining tools (balance, deposit, withdraw, current network) are made of
  \<open>invoke_contract_function\<close>, \<open>read_contract\<close> and direct calls of a provider's
  method, which only add to the log.
\<close>

inductive reachable :: "state \<Rightarrow> bool" where
  loaded: "reachable (initial_state file)"
| after_initialize_agent:
    "reachable s \<Longrightarrow> initialize_agent env s = (r, s') \<Longrightarrow> reachable s'"
| after_switch_network:
    "reachable s \<Longrightarrow> switch_network env cid s = (r, s') \<Longrightarrow> reachable s'"
| after_get_cdp_wallet_provider_for_chain:
    "reachable s \<Longrightarrow> get_cdp_wallet_provider_for_chain env cid s = (q, s') \<Longrightarrow> reachable s'"
| after_verify_all_chains:
    "reachable s \<Longrightarrow> verify_all_chains env s = (r, s') \<Longrightarrow> reachable s'"
| after_invoke_contract_function:
    "reachable s \<Longrightarrow> invoke_contract_function env p fn args v s = (d, s') \<Longrightarrow> reachable s'"
| after_read_contract:
    "reachable s \<Longrightarrow> read_contract env p fn args s = (d, s') \<Longrightarrow> reachable s'"
| after_call: "reachable s \<Longrightarrow> reachable (emit e s)"

subsection \<open>Example worlds\<close>

text \<open>
  Concrete collaborators, for running the functions. In \<open>world_up\<close> every call is
  answered. A provider built for a chain is \<open>Provider n\<close> with \<open>n\<close> the position
  of the chain in \<open>SUPPORTED_CHAINS\<close>, and reports that chain; a provider built with
  no chain is on the first one. Every transaction gets the hash \<open>0xb1\<close>.
  In \<open>world_kit_down\<close> the agent kit can be built at start-up (the first eight
  external calls) and no longer afterwards. In \<open>world_mint_down\<close> the contract
  rejects \<open>crosschainMint\<close>. In \<open>world_receipt_down\<close> no receipt arrives.
  \<open>started w\<close> is the state after start-up in \<open>w\<close> with no wallet file.
\<close>

definition chain_index :: "string \<Rightarrow> nat" where
  "chain_index c = length (takeWhile (\<lambda>k. k \<noteq> c) (keys SUPPORTED_CHAINS))"

definition chain_at :: "nat \<Rightarrow> string" where
  "chain_at n = (if n < length SUPPORTED_CHAINS then keys SUPPORTED_CHAINS ! n else ''0'')"

definition world_up :: env where
  "world_up =
     \<lparr>CdpWalletProvider =
        (\<lambda>cfg t. Inr (Provider (case default_chain_id cfg of
                                  None \<Rightarrow> 0 | Some c \<Rightarrow> chain_index c))),
      truthy = (\<lambda>p. True),
      get_network =
        (\<lambda>p t. case p of Provider n \<Rightarrow> Inr \<lparr>chain_id = chain_at n, network_id = None\<rparr>),
      get_balance = (\<lambda>p t. Inr 7),
      export_wallet = (\<lambda>p t. Inr ''{}''),
      transact_contract = (\<lambda>p addr abi fn args v t. Inr ''0xb1''),
      wait_for_transaction_receipt = (\<lambda>p h t. Inr (Obj ''receipt'')),
      provider_read_contract = (\<lambda>p addr abi fn args t. Inr (Num 5)),
      AgentKit = (\<lambda>p t. Inr (AgentKitObj t)),
      ChatOpenAI = (\<lambda>t. None),
      get_langchain_tools = (\<lambda>kit t. None),
      create_react_agent = (\<lambda>t. None)\<rparr>"

definition world_kit_down :: env where
  "world_kit_down =
     world_up\<lparr>AgentKit :=
        (\<lambda>p t. if t < 8 then Inr (AgentKitObj t) else Inl (Exception ''no api key''))\<rparr>"

definition world_mint_down :: env where
  "world_mint_down =
     world_up\<lparr>transact_contract :=
        (\<lambda>p addr abi fn args v t.
           if fn = ''crosschainMint'' then Inl (Exception ''execution reverted'')
           else Inr ''0xb1'')\<rparr>"

definition world_receipt_down :: env where
  "world_receipt_down =
     world_up\<lparr>wait_for_transaction_receipt := (\<lambda>p h t. Inl (Exception ''timeout''))\<rparr>"

definition started :: "env \<Rightarrow> state" where
  "started w = snd (initialize_agent w (initial_state None))"

section \<open>Properties\<close>

subsection \<open>What the functions leave alone\<close>

lemmas call_defs = call_CdpWalletProvider_def call_get_network_def call_get_balance_def
  call_export_wallet_def call_transact_contract_def call_wait_for_transaction_receipt_def
  call_read_contract_def call_AgentKit_def call_ChatOpenAI_def call_get_langchain_tools_def
  call_create_react_agent_def

lemma emit_fields [simp]:
  "current_chain_id (emit e s) = current_chain_id s"
  "wallet_provider (emit e s) = wallet_provider s"
  "wallet_providers_cache (emit e s) = wallet_providers_cache s"
  "agentkit (emit e s) = agentkit s"
  "wallet_data_txt (emit e s) = wallet_data_txt s"
  "io_log (emit e s) = io_log s @ [e]"
  "clock (emit e s) = Suc (clock s)"
  by (simp_all add: emit_def clock_def)

lemma getters_emit [simp]:
  "get_contract_address (emit e s) = get_contract_address s"
  "get_chain_name (emit e s) = get_chain_name s"
  "get_explorer_url (emit e s) = get_explorer_url s"
  by (simp_all add: get_contract_address_def get_chain_name_def get_explorer_url_def
        split: option.splits)

lemma sublist_join: "x \<in> set xs \<Longrightarrow> sublist x (join sep xs)"
proof (induction sep xs rule: join.induct)
  case (1 sep)
  then show ?case by simp
next
  case (2 sep y)
  then show ?case by simp
next
  case (3 sep y z ys)
  show ?case
  proof (cases "x = y")
    case True
    then show ?thesis by (simp add: sublist_append_rightI)
  next
    case False
    with 3 have "sublist x (join sep (z # ys))" by simp
    then show ?thesis by (simp add: sublist_append)
  qed
qed

lemma keys_map_of: "c \<in> set (keys d) \<longleftrightarrow> map_of d c \<noteq> None"
  by (simp add: keys_def map_of_eq_None_iff)

lemma chain_getters:
  "map_of SUPPORTED_CHAINS (current_chain_id s) = Some info \<Longrightarrow>
     get_contract_address s = Inr (contract_address info) \<and>
     get_chain_name s = Inr (name info) \<and>
     get_explorer_url s = Inr (explorer_url info)"
  by (simp add: get_contract_address_def get_chain_name_def get_explorer_url_def)

lemma get_cdp_frame:
  "get_cdp_wallet_provider_for_chain env cid s = (q, s') \<Longrightarrow>
     current_chain_id s' = current_chain_id s \<and> wallet_provider s' = wallet_provider s \<and>
     agentkit s' = agentkit s"
  by (auto simp: get_cdp_wallet_provider_for_chain_def call_defs
        read_wallet_data_def write_wallet_data_def
        split: option.splits sum.splits prod.splits)

lemma switch_network_try_chain:
  "switch_network_try env c s = (r, s') \<Longrightarrow>
     current_chain_id s' = current_chain_id s \<or> current_chain_id s' = c"
  unfolding switch_network_try_def
  by (auto simp: call_defs split: option.splits sum.splits prod.splits if_splits
        dest!: get_cdp_frame)

lemma switch_network_chain:
  "switch_network env c s = (r, s') \<Longrightarrow>
     current_chain_id s' = current_chain_id s \<or>
     (current_chain_id s' = c \<and> c \<in> set (keys SUPPORTED_CHAINS))"
  unfolding switch_network_def
  by (auto split: sum.splits prod.splits if_splits dest: switch_network_try_chain)


lemma initialize_agent_chain:
  "initialize_agent env s = (r, s') \<Longrightarrow> current_chain_id s' = current_chain_id s"
  unfolding initialize_agent_def
  by (auto simp: call_defs read_wallet_data_def write_wallet_data_def
        split: option.splits sum.splits prod.splits)

lemma verify_chain_chain:
  "verify_chain env cid info s = (line, s') \<Longrightarrow> current_chain_id s' = current_chain_id s"
  unfolding verify_chain_def verify_chain_try_def
  by (auto simp: call_defs split: sum.splits prod.splits dest!: get_cdp_frame)

lemma verify_chains_loop_chain:
  "verify_chains_loop env cs s = (lines, s') \<Longrightarrow> current_chain_id s' = current_chain_id s"
proof (induction cs arbitrary: s lines s')
  case Nil
  then show ?case by simp
next
  case (Cons c cs)
  obtain cid info where c: "c = (cid, info)" by (cases c)
  obtain line s1 where one: "verify_chain env cid info s = (line, s1)"
    by (cases "verify_chain env cid info s")
  obtain rest s2 where loop: "verify_chains_loop env cs s1 = (rest, s2)"
    by (cases "verify_chains_loop env cs s1")
  from Cons.prems c one loop have "s' = s2" by simp
  with Cons.IH [OF loop] verify_chain_chain [OF one] show ?case by simp
qed

lemma verify_all_chains_chain:
  "verify_all_chains env s = (r, s') \<Longrightarrow> current_chain_id s' = current_chain_id s"
  unfolding verify_all_chains_def
  by (auto split: sum.splits prod.splits dest: verify_chains_loop_chain)

lemma invoke_contract_function_frame:
  "invoke_contract_function env p fn args v s = (d, s') \<Longrightarrow>
     s' = s\<lparr>io_log := io_log s'\<rparr>"
  unfolding invoke_contract_function_def invoke_contract_function_try_def
  by (auto simp: call_defs emit_def split: option.splits sum.splits prod.splits if_splits)

lemma read_contract_frame:
  "read_contract env p fn args s = (d, s') \<Longrightarrow>
     s' = s\<lparr>io_log := io_log s'\<rparr>"
  unfolding read_contract_def read_contract_try_def
  by (auto simp: call_defs emit_def split: option.splits sum.splits prod.splits if_splits)




lemma default_chain_supported: "DEFAULT_CHAIN_ID \<in> set (keys SUPPORTED_CHAINS)"
  by (simp add: DEFAULT_CHAIN_ID_def keys_def SUPPORTED_CHAINS_def)

lemma reachable_supported:
  "reachable s \<Longrightarrow> current_chain_id s \<in> set (keys SUPPORTED_CHAINS)"
proof (induction rule: reachable.induct)
  case (loaded f)
  then show ?case by (simp add: initial_state_def default_chain_supported)
next
  case (after_initialize_agent s env r s')
  then show ?case by (simp add: initialize_agent_chain)
next
  case (after_switch_network s env cid r s')
  from switch_network_chain [OF after_switch_network.hyps(2)] after_switch_network.IH
  show ?case by auto
next
  case (after_get_cdp_wallet_provider_for_chain s env cid q s')
  then show ?case by (simp add: get_cdp_frame)
next
  case (after_verify_all_chains s env r s')
  then show ?case by (simp add: verify_all_chains_chain)
next
  case (after_invoke_contract_function s env p fn args v d s')
  from invoke_contract_function_frame [OF after_invoke_contract_function.hyps(2)]
  have "current_chain_id s' = current_chain_id s" by (metis state.select_convs(2) state.surjective state.update_convs(6))
  with after_invoke_contract_function.IH show ?case by simp
next
  case (after_read_contract s env p fn args d s')
  from read_contract_frame [OF after_read_contract.hyps(2)]
  have "current_chain_id s' = current_chain_id s" by (metis state.select_convs(2) state.surjective state.update_convs(6))
  with after_read_contract.IH show ?case by simp
next
  case (after_call s e)
  then show ?case by simp
qed

subsection \<open>The example worlds, evaluated\<close>

lemmas world_defs = world_up_def world_kit_down_def world_mint_down_def
  world_receipt_down_def chain_index_def
  chain_at_def keys_def SUPPORTED_CHAINS_def

lemmas run_defs = call_defs emit_def clock_def read_wallet_data_def write_wallet_data_def
  get_contract_address_def get_chain_name_def get_explorer_url_def

lemma reachable_started: "reachable (started w)"
  unfolding started_def
  by (rule after_initialize_agent [OF loaded, of _ _ "fst (initialize_agent w (initial_state None))"])
     simp

lemma started_chain: "current_chain_id (started w) = ''84532''"
  unfolding started_def
  using initialize_agent_chain [of w "initial_state None"]
  by (cases "initialize_agent w (initial_state None)")
     (simp add: initial_state_def DEFAULT_CHAIN_ID_def)

lemma started_world_up:
  "started world_up =
     \<lparr>wallet_provider = Some (Provider 0), current_chain_id = ''84532'',
      wallet_providers_cache = Map.empty, agentkit = Some (AgentKitObj 5),
      wallet_data_txt = Some ''{}'',
      io_log = [NewLLM, NewProvider \<lparr>wallet_data = None, default_chain_id = None\<rparr>,
                ExportWallet (Provider 0), WriteFile ''{}'', GetNetwork (Provider 0),
                NewAgentKit (Provider 0), GetTools (AgentKitObj 5), NewAgent]\<rparr>"
  by (simp add: started_def initialize_agent_def initial_state_def DEFAULT_CHAIN_ID_def
        run_defs world_defs)

lemma started_world_kit_down: "started world_kit_down = started world_up"
  by (simp add: started_def initialize_agent_def initial_state_def DEFAULT_CHAIN_ID_def
        run_defs world_defs)


lemma started_world_receipt_down: "started world_receipt_down = started world_up"
  by (simp add: started_def initialize_agent_def initial_state_def DEFAULT_CHAIN_ID_def
        run_defs world_defs)

lemma switched_world_up:
  "switch_network world_up ''10'' (started world_up) =
     (Inr ''Switched to Optimism (Chain ID: 10)'',
      \<lparr>wallet_provider = Some (Provider 7), current_chain_id = ''10'',
       wallet_providers_cache = [''10'' \<mapsto> Provider 7], agentkit = Some (AgentKitObj 15),
       wallet_data_txt = Some ''{}'',
       io_log = [NewLLM, NewProvider \<lparr>wallet_data = None, default_chain_id = None\<rparr>,
                 ExportWallet (Provider 0), WriteFile ''{}'', GetNetwork (Provider 0),
                 NewAgentKit (Provider 0), GetTools (AgentKitObj 5), NewAgent,
                 ReadFile,
                 NewProvider \<lparr>wallet_data = Some ''{}'', default_chain_id = Some ''10''\<rparr>,
                 GetNetwork (Provider 7), ExportWallet (Provider 7), WriteFile ''{}'',
                 GetNetwork (Provider 7), GetBalance (Provider 7),
                 NewAgentKit (Provider 7), GetNetwork (Provider 7)]\<rparr>)"
  unfolding started_world_up
  by (simp add: switch_network_def switch_network_try_def
        get_cdp_wallet_provider_for_chain_def run_defs world_defs eval_nat_numeral)




subsection \<open>Switching\<close>

text \<open>
  C4. For a chain id that is not a key of \<open>SUPPORTED_CHAINS\<close>, \<open>switch_network\<close>
  returns the message "Error: Chain ID ... not supported. Must be one of: ..." and the
  state it was called in: the globals, the provider cache, the file and the log of
  external calls are what they were. The message contains "not supported" and ends with
  the supported ids joined by ", "; each supported id occurs in that list, and "84532"
  is one of them.
\<close>

theorem switch_network_unsupported_chain:
  "new_chain_id \<notin> set (keys SUPPORTED_CHAINS) \<Longrightarrow>
     switch_network env new_chain_id s =
       (Inr (''Error: Chain ID '' @ new_chain_id @ '' not supported. Must be one of: ''
             @ join '', '' (keys SUPPORTED_CHAINS)), s) \<and>
     sublist ''not supported''
       (''Error: Chain ID '' @ new_chain_id @ '' not supported. Must be one of: ''
        @ join '', '' (keys SUPPORTED_CHAINS)) \<and>
     (\<forall>c \<in> set (keys SUPPORTED_CHAINS). sublist c (join '', '' (keys SUPPORTED_CHAINS))) \<and>
     ''84532'' \<in> set (keys SUPPORTED_CHAINS)"
proof (intro conjI ballI)
  assume "new_chain_id \<notin> set (keys SUPPORTED_CHAINS)"
  then show "switch_network env new_chain_id s =
       (Inr (''Error: Chain ID '' @ new_chain_id @ '' not supported. Must be one of: ''
             @ join '', '' (keys SUPPORTED_CHAINS)), s)"
    by (simp add: switch_network_def)
next
  have "''Error: Chain ID '' @ new_chain_id @ '' not supported. Must be one of: ''
          @ join '', '' (keys SUPPORTED_CHAINS) =
        (''Error: Chain ID '' @ new_chain_id @ '' '') @ ''not supported''
          @ (''. Must be one of: '' @ join '', '' (keys SUPPORTED_CHAINS))"
    by simp
  then show "sublist ''not supported''
       (''Error: Chain ID '' @ new_chain_id @ '' not supported. Must be one of: ''
        @ join '', '' (keys SUPPORTED_CHAINS))"
    by (metis sublist_appendI)
next
  fix c assume "c \<in> set (keys SUPPORTED_CHAINS)"
  then show "sublist c (join '', '' (keys SUPPORTED_CHAINS))" by (rule sublist_join)
next
  show "''84532'' \<in> set (keys SUPPORTED_CHAINS)"
    by (simp add: keys_def SUPPORTED_CHAINS_def)
qed

theorem switch_network_unsupported_chain_witness:
  "''99999'' \<notin> set (keys SUPPORTED_CHAINS) \<and>
   switch_network world_up ''99999'' (started world_up) =
     (Inr ''Error: Chain ID 99999 not supported. Must be one of: 84532, 11155111, 421614, 11155420, 8453, 1, 42161, 10, 80001, 137'',
      started world_up) \<and>
   ''84532'' \<in> set (keys SUPPORTED_CHAINS) \<and>
   sublist ''84532'' (join '', '' (keys SUPPORTED_CHAINS))"
proof -
  have unsupported: "''99999'' \<notin> set (keys SUPPORTED_CHAINS)"
    by (simp add: keys_def SUPPORTED_CHAINS_def)
  from switch_network_unsupported_chain [OF unsupported, of world_up "started world_up"]
  have "sublist ''84532'' (join '', '' (keys SUPPORTED_CHAINS))"
    and "''84532'' \<in> set (keys SUPPORTED_CHAINS)"
    by blast+
  moreover have "switch_network world_up ''99999'' (started world_up) =
     (Inr ''Error: Chain ID 99999 not supported. Must be one of: 84532, 11155111, 421614, 11155420, 8453, 1, 42161, 10, 80001, 137'',
      started world_up)"
    by (simp add: switch_network_def keys_def SUPPORTED_CHAINS_def)
  ultimately show ?thesis using unsupported by blast
qed

text \<open>
  C6. \<open>switch_network\<close> called with the chain that is already current returns the
  state unchanged, in every state: nothing is removed from or added to the cache and no
  external call is logged. In a reachable state the result is the "Already on ..."
  message with the name of the current chain.
\<close>

theorem switch_network_same_chain:
  "snd (switch_network env (current_chain_id s) s) = s \<and>
   (reachable s \<longrightarrow>
      (\<exists>info. map_of SUPPORTED_CHAINS (current_chain_id s) = Some info \<and>
         fst (switch_network env (current_chain_id s) s) =
           Inr (''Already on '' @ name info @ '' (Chain ID: '' @ current_chain_id s @ '')'')))"
proof (intro conjI impI)
  show "snd (switch_network env (current_chain_id s) s) = s"
    by (simp add: switch_network_def split: sum.splits)
next
  assume "reachable s"
  then have "current_chain_id s \<in> set (keys SUPPORTED_CHAINS)" by (rule reachable_supported)
  then obtain info where info: "map_of SUPPORTED_CHAINS (current_chain_id s) = Some info"
    by (auto simp: keys_map_of)
  then have "fst (switch_network env (current_chain_id s) s) =
           Inr (''Already on '' @ name info @ '' (Chain ID: '' @ current_chain_id s @ '')'')"
    using \<open>current_chain_id s \<in> set (keys SUPPORTED_CHAINS)\<close>
    by (simp add: switch_network_def get_chain_name_def)
  with info show "\<exists>info. map_of SUPPORTED_CHAINS (current_chain_id s) = Some info \<and>
         fst (switch_network env (current_chain_id s) s) =
           Inr (''Already on '' @ name info @ '' (Chain ID: '' @ current_chain_id s @ '')'')"
    by blast
qed

theorem switch_network_same_chain_witness:
  "reachable (started world_up) \<and>
   switch_network world_up (current_chain_id (started world_up)) (started world_up) =
     (Inr ''Already on Base Sepolia (Chain ID: 84532)'', started world_up)"
proof -
  have reach: "reachable (started world_up)" by (rule reachable_started)
  have "map_of SUPPORTED_CHAINS ''84532'' =
          Some \<lparr>name = ''Base Sepolia'',
                contract_address = ''0xEBE8Ca83dfFeaa2288a70B4f1e29EcD089d325E2'',
                explorer_url = ''https://sepolia.basescan.org''\<rparr>"
    by (simp add: SUPPORTED_CHAINS_def)
  with switch_network_same_chain [of world_up "started world_up"] reach
  have "snd (switch_network world_up (current_chain_id (started world_up)) (started world_up))
          = started world_up"
    and "fst (switch_network world_up (current_chain_id (started world_up)) (started world_up))
          = Inr ''Already on Base Sepolia (Chain ID: 84532)''"
    by (auto simp: started_chain)
  with reach show ?thesis by (simp add: prod_eq_iff)
qed

text \<open>
  What a call of \<open>switch_network\<close> leaves alone: unless it got as far as rebuilding
  the agent kit (a \<open>NewAgentKit\<close> in the log), \<open>current_chain_id\<close>,
  \<open>wallet_provider\<close> and \<open>agentkit\<close> are what they were. That covers an unsupported
  chain, the current chain, a provider that cannot be built or is falsy, a provider on
  another chain, and a failed \<open>get_balance()\<close>.
\<close>

lemma get_cdp_log:
  "get_cdp_wallet_provider_for_chain env cid s = (q, s') \<Longrightarrow>
     \<exists>es. io_log s' = io_log s @ es"
  by (auto simp: get_cdp_wallet_provider_for_chain_def call_defs
        read_wallet_data_def write_wallet_data_def
        split: option.splits sum.splits prod.splits)

lemma switch_network_try_before_commit:
  assumes "switch_network_try env c s = (r, s')"
    and "\<forall>p. NewAgentKit p \<notin> set (events_since s s')"
  shows "current_chain_id s' = current_chain_id s \<and> wallet_provider s' = wallet_provider s
         \<and> agentkit s' = agentkit s"
proof -
  let ?s0 = "if wallet_providers_cache s c \<noteq> None
             then s\<lparr>wallet_providers_cache := (wallet_providers_cache s)(c := None)\<rparr> else s"
  obtain q s1 where cdp: "get_cdp_wallet_provider_for_chain env c ?s0 = (q, s1)"
    by (cases "get_cdp_wallet_provider_for_chain env c ?s0")
  from get_cdp_log [OF cdp] obtain es where es: "io_log s1 = io_log s @ es"
    by (auto split: if_splits)
  from get_cdp_frame [OF cdp]
  have frame: "current_chain_id s1 = current_chain_id s" "wallet_provider s1 = wallet_provider s"
    "agentkit s1 = agentkit s"
    by (auto split: if_splits)
  from assms cdp es frame show ?thesis
    unfolding switch_network_try_def
    by (auto simp: call_defs events_since_def
          split: option.splits sum.splits prod.splits if_splits)
qed

lemma switch_network_before_commit:
  "switch_network env c s = (r, s') \<Longrightarrow> \<forall>p. NewAgentKit p \<notin> set (events_since s s') \<Longrightarrow>
     current_chain_id s' = current_chain_id s \<and> wallet_provider s' = wallet_provider s
     \<and> agentkit s' = agentkit s"
  unfolding switch_network_def
  by (auto split: sum.splits prod.splits if_splits dest: switch_network_try_before_commit)

text \<open>
  C1. \<open>switch_network\<close> assigns \<open>current_chain_id\<close> and \<open>wallet_provider\<close>
  before it rebuilds the agent kit, inside the same \<open>try\<close>. When the rebuild
  raises, the handler returns "Error switching to chain ..." and the two globals keep
  their new values, while \<open>agentkit\<close> is still the one bound to the old provider.
  Here: started on 84532 with provider 0, switching to 10 in a world where the agent kit
  can no longer be built.
\<close>

theorem switch_network_commits_before_rebuild:
  "current_chain_id (started world_kit_down) = ''84532'' \<and>
   wallet_provider (started world_kit_down) = Some (Provider 0) \<and>
   fst (switch_network world_kit_down ''10'' (started world_kit_down)) =
     Inr ''Error switching to chain 10: no api key'' \<and>
   current_chain_id (snd (switch_network world_kit_down ''10'' (started world_kit_down))) = ''10'' \<and>
   wallet_provider (snd (switch_network world_kit_down ''10'' (started world_kit_down))) =
     Some (Provider 7) \<and>
   agentkit (snd (switch_network world_kit_down ''10'' (started world_kit_down))) =
     agentkit (started world_kit_down)"
  unfolding started_world_kit_down started_world_up
  by (simp add: switch_network_def switch_network_try_def
        get_cdp_wallet_provider_for_chain_def run_defs world_defs)

text \<open>
  C10. In every reachable state \<open>current_chain_id\<close> is a key of
  \<open>SUPPORTED_CHAINS\<close>: it starts as \<open>DEFAULT_CHAIN_ID\<close>, and the only assignment
  to it is the one in \<open>switch_network\<close>, after the membership test. So
  \<open>get_contract_address\<close>, \<open>get_chain_name\<close> and \<open>get_explorer_url\<close> return
  a value there and do not raise.
\<close>

theorem current_chain_id_supported:
  "reachable s \<Longrightarrow>
     current_chain_id s \<in> set (keys SUPPORTED_CHAINS) \<and>
     (\<exists>a. get_contract_address s = Inr a) \<and>
     (\<exists>n. get_chain_name s = Inr n) \<and>
     (\<exists>u. get_explorer_url s = Inr u)"
proof -
  assume "reachable s"
  then have supported: "current_chain_id s \<in> set (keys SUPPORTED_CHAINS)"
    by (rule reachable_supported)
  then obtain info where "map_of SUPPORTED_CHAINS (current_chain_id s) = Some info"
    by (auto simp: keys_map_of)
  from chain_getters [OF this] supported show ?thesis by simp
qed

theorem current_chain_id_supported_witness:
  "reachable (snd (switch_network world_up ''10'' (started world_up))) \<and>
   current_chain_id (snd (switch_network world_up ''10'' (started world_up))) = ''10'' \<and>
   ''10'' \<in> set (keys SUPPORTED_CHAINS) \<and>
   get_chain_name (snd (switch_network world_up ''10'' (started world_up))) = Inr ''Optimism''"
proof -
  let ?s = "snd (switch_network world_up ''10'' (started world_up))"
  have reach: "reachable ?s"
    by (rule after_switch_network [OF reachable_started,
          of _ _ _ "fst (switch_network world_up ''10'' (started world_up))"]) simp
  have chain: "current_chain_id ?s = ''10''" by (simp add: switched_world_up)
  have "get_chain_name ?s = Inr ''Optimism''"
    by (simp add: switched_world_up get_chain_name_def SUPPORTED_CHAINS_def)
  with current_chain_id_supported [OF reach] reach chain show ?thesis by simp
qed

subsection \<open>The provider cache\<close>

text \<open>
  C5. A call of \<open>get_cdp_wallet_provider_for_chain\<close> for a cached chain returns the
  cached provider and the state it was called in, so it logs no call: no construction,
  no write. And when a first call finds no entry and returns a provider, a second call
  for the same chain, whatever the collaborators would answer then, returns that
  provider and changes nothing; the log of the two calls together has exactly one write
  of the wallet file and one construction, both from the first call.
\<close>

theorem get_cdp_wallet_provider_for_chain_idempotent:
  "(wallet_providers_cache s cid = Some p \<longrightarrow>
      get_cdp_wallet_provider_for_chain env cid s = (Inr p, s)) \<and>
   (wallet_providers_cache s cid = None \<and>
    get_cdp_wallet_provider_for_chain env cid s = (Inr p, s1) \<longrightarrow>
      get_cdp_wallet_provider_for_chain env2 cid s1 = (Inr p, s1) \<and>
      length (filter persistence_write (events_since s s1)) = 1 \<and>
      length (filter provider_construction (events_since s s1)) = 1)"
proof (intro conjI impI)
  assume "wallet_providers_cache s cid = Some p"
  then show "get_cdp_wallet_provider_for_chain env cid s = (Inr p, s)"
    by (simp add: get_cdp_wallet_provider_for_chain_def)
next
  assume miss: "wallet_providers_cache s cid = None \<and>
    get_cdp_wallet_provider_for_chain env cid s = (Inr p, s1)"
  then have cached: "wallet_providers_cache s1 cid = Some p"
    by (auto simp: get_cdp_wallet_provider_for_chain_def call_defs
          read_wallet_data_def write_wallet_data_def
          split: option.splits sum.splits prod.splits)
  then show "get_cdp_wallet_provider_for_chain env2 cid s1 = (Inr p, s1)"
    by (simp add: get_cdp_wallet_provider_for_chain_def)
  from miss obtain d cfg where
    "events_since s s1 = [ReadFile, NewProvider cfg, GetNetwork p, ExportWallet p, WriteFile d]
     \<or> events_since s s1 = [NewProvider cfg, GetNetwork p, ExportWallet p, WriteFile d]"
    by (auto simp: get_cdp_wallet_provider_for_chain_def call_defs events_since_def
          read_wallet_data_def write_wallet_data_def
          split: option.splits sum.splits prod.splits)
  then show "length (filter persistence_write (events_since s s1)) = 1"
    and "length (filter provider_construction (events_since s s1)) = 1"
    by auto
qed

theorem get_cdp_wallet_provider_for_chain_idempotent_witness:
  "wallet_providers_cache (started world_up) ''10'' = None \<and>
   fst (get_cdp_wallet_provider_for_chain world_up ''10'' (started world_up)) =
     Inr (Provider 7) \<and>
   wallet_providers_cache
     (snd (get_cdp_wallet_provider_for_chain world_up ''10'' (started world_up))) ''10'' =
     Some (Provider 7) \<and>
   get_cdp_wallet_provider_for_chain world_up ''10''
     (snd (get_cdp_wallet_provider_for_chain world_up ''10'' (started world_up))) =
     (Inr (Provider 7),
      snd (get_cdp_wallet_provider_for_chain world_up ''10'' (started world_up))) \<and>
   length (filter persistence_write
     (events_since (started world_up)
        (snd (get_cdp_wallet_provider_for_chain world_up ''10'' (started world_up))))) = 1 \<and>
   length (filter provider_construction
     (events_since (started world_up)
        (snd (get_cdp_wallet_provider_for_chain world_up ''10'' (started world_up))))) = 1"
proof -
  let ?s1 = "snd (get_cdp_wallet_provider_for_chain world_up ''10'' (started world_up))"
  have miss: "wallet_providers_cache (started world_up) ''10'' = None"
    by (simp add: started_world_up)
  have first: "fst (get_cdp_wallet_provider_for_chain world_up ''10'' (started world_up)) =
     Inr (Provider 7)"
    unfolding started_world_up
    by (simp add: get_cdp_wallet_provider_for_chain_def run_defs world_defs)
  then have run: "get_cdp_wallet_provider_for_chain world_up ''10'' (started world_up) =
     (Inr (Provider 7), ?s1)"
    by (simp add: prod_eq_iff)
  have hit: "wallet_providers_cache ?s1 ''10'' = Some (Provider 7)"
    unfolding started_world_up
    by (simp add: get_cdp_wallet_provider_for_chain_def run_defs world_defs eval_nat_numeral)
  from get_cdp_wallet_provider_for_chain_idempotent
         [of "started world_up" "''10''" "Provider 7" world_up ?s1 world_up]
       get_cdp_wallet_provider_for_chain_idempotent
         [of ?s1 "''10''" "Provider 7" world_up ?s1 world_up]
       miss first run hit
  show ?thesis by simp
qed

subsection \<open>Contract invocation\<close>

text \<open>
  C2. When the provider reports a chain other than \<open>current_chain_id\<close>, both
  \<open>invoke_contract_function\<close> and \<open>read_contract\<close> return the dictionary with the
  one key \<open>error\<close> and a message that starts with "Chain mismatch", and the only
  external call they have made is the question to the provider for its network: no
  transaction, no wait for a receipt, no contract read.
\<close>

theorem chain_mismatch_before_any_call:
  "get_network env p (clock s) = Inr net \<Longrightarrow> chain_id net \<noteq> current_chain_id s \<Longrightarrow>
     invoke_contract_function env (Some p) fn args v s =
       (Inr [(''error'', Str (''Chain mismatch: Wallet on chain '' @ chain_id net
                               @ '', but global chain is '' @ current_chain_id s))],
        emit (GetNetwork p) s) \<and>
     read_contract env (Some p) fn args s =
       (Inr [(''error'', Str (''Chain mismatch: provider on chain '' @ chain_id net
                               @ '', global chain is '' @ current_chain_id s))],
        emit (GetNetwork p) s)"
  by (simp add: invoke_contract_function_def invoke_contract_function_try_def
        read_contract_def read_contract_try_def call_get_network_def)

theorem chain_mismatch_before_any_call_witness:
  "get_network world_up (Provider 1) (clock (started world_up)) =
     Inr \<lparr>chain_id = ''11155111'', network_id = None\<rparr> \<and>
   ''11155111'' \<noteq> current_chain_id (started world_up) \<and>
   invoke_contract_function world_up (Some (Provider 1)) ''crosschainMint''
       (Some [Str ''0xABC'', Num 100]) 0 (started world_up) =
     (Inr [(''error'',
            Str ''Chain mismatch: Wallet on chain 11155111, but global chain is 84532'')],
      emit (GetNetwork (Provider 1)) (started world_up)) \<and>
   read_contract world_up (Some (Provider 1)) ''balanceOf'' (Some [Str ''0xABC''])
       (started world_up) =
     (Inr [(''error'',
            Str ''Chain mismatch: provider on chain 11155111, global chain is 84532'')],
      emit (GetNetwork (Provider 1)) (started world_up))"
proof -
  have net: "get_network world_up (Provider 1) (clock (started world_up)) =
     Inr \<lparr>chain_id = ''11155111'', network_id = None\<rparr>"
    by (simp add: world_defs)
  have differ: "chain_id \<lparr>chain_id = ''11155111'', network_id = None\<rparr>
                  \<noteq> current_chain_id (started world_up)"
    by (simp add: started_chain)
  from chain_mismatch_before_any_call [OF net differ] net differ
  show ?thesis by (simp add: started_chain)
qed

text \<open>
  C7. \<open>invoke_contract_function\<close> returns a dictionary for every input and never an
  exception. Whatever is raised in its body becomes \<open>{"error": str(e)}\<close>; in
  particular what \<open>transact_contract\<close> raises at submission, and what
  \<open>wait_for_transaction_receipt\<close> raises after a successful submission.
\<close>

theorem invoke_contract_function_catches:
  "(\<exists>d. fst (invoke_contract_function env provider fn args v s) = Inr d) \<and>
   (invoke_contract_function_try env provider fn args v s = (Inl e, s') \<longrightarrow>
      invoke_contract_function env provider fn args v s =
        (Inr [(''error'', Str (str e))], s')) \<and>
   (get_network env p (clock s) = Inr net \<and> chain_id net = current_chain_id s \<and>
    get_contract_address s = Inr addr \<and>
    transact_contract env p addr CROSSCHAIN_CONTRACT_ABI fn
       (case args of None \<Rightarrow> [] | Some a \<Rightarrow> a)
       (if v > 0 then py_int (v * 10 ^ 18) else 0) (Suc (clock s)) = Inl e1 \<longrightarrow>
      fst (invoke_contract_function env (Some p) fn args v s) =
        Inr [(''error'', Str (str e1))]) \<and>
   (get_network env p (clock s) = Inr net \<and> chain_id net = current_chain_id s \<and>
    get_contract_address s = Inr addr \<and>
    transact_contract env p addr CROSSCHAIN_CONTRACT_ABI fn
       (case args of None \<Rightarrow> [] | Some a \<Rightarrow> a)
       (if v > 0 then py_int (v * 10 ^ 18) else 0) (Suc (clock s)) = Inr h \<and>
    wait_for_transaction_receipt env p h (Suc (Suc (clock s))) = Inl e2 \<longrightarrow>
      fst (invoke_contract_function env (Some p) fn args v s) =
        Inr [(''error'', Str (str e2))])"
proof (intro conjI impI)
  show "\<exists>d. fst (invoke_contract_function env provider fn args v s) = Inr d"
    by (cases "invoke_contract_function_try env provider fn args v s")
       (auto simp: invoke_contract_function_def split: sum.splits)
next
  assume "invoke_contract_function_try env provider fn args v s = (Inl e, s')"
  then show "invoke_contract_function env provider fn args v s =
        (Inr [(''error'', Str (str e))], s')"
    by (simp add: invoke_contract_function_def)
next
  assume "get_network env p (clock s) = Inr net \<and> chain_id net = current_chain_id s \<and>
    get_contract_address s = Inr addr \<and>
    transact_contract env p addr CROSSCHAIN_CONTRACT_ABI fn
       (case args of None \<Rightarrow> [] | Some a \<Rightarrow> a)
       (if v > 0 then py_int (v * 10 ^ 18) else 0) (Suc (clock s)) = Inl e1"
  then show "fst (invoke_contract_function env (Some p) fn args v s) =
        Inr [(''error'', Str (str e1))]"
    by (auto simp: invoke_contract_function_def invoke_contract_function_try_def
          call_get_network_def call_transact_contract_def)
next
  assume "get_network env p (clock s) = Inr net \<and> chain_id net = current_chain_id s \<and>
    get_contract_address s = Inr addr \<and>
    transact_contract env p addr CROSSCHAIN_CONTRACT_ABI fn
       (case args of None \<Rightarrow> [] | Some a \<Rightarrow> a)
       (if v > 0 then py_int (v * 10 ^ 18) else 0) (Suc (clock s)) = Inr h \<and>
    wait_for_transaction_receipt env p h (Suc (Suc (clock s))) = Inl e2"
  then show "fst (invoke_contract_function env (Some p) fn args v s) =
        Inr [(''error'', Str (str e2))]"
    by (auto simp: invoke_contract_function_def invoke_contract_function_try_def
          call_get_network_def call_transact_contract_def
          call_wait_for_transaction_receipt_def)
qed

theorem invoke_contract_function_catches_witness:
  "get_network world_mint_down (Provider 0) (clock (started world_up)) =
     Inr \<lparr>chain_id = ''84532'', network_id = None\<rparr> \<and>
   get_contract_address (started world_up) =
     Inr ''0xEBE8Ca83dfFeaa2288a70B4f1e29EcD089d325E2'' \<and>
   transact_contract world_mint_down (Provider 0)
       ''0xEBE8Ca83dfFeaa2288a70B4f1e29EcD089d325E2'' CROSSCHAIN_CONTRACT_ABI
       ''crosschainMint'' [Str ''0x1234'', Num 50] 0 (Suc (clock (started world_up))) =
     Inl (Exception ''execution reverted'') \<and>
   fst (invoke_contract_function_try world_mint_down (Some (Provider 0)) ''crosschainMint''
          (Some [Str ''0x1234'', Num 50]) 0 (started world_up)) =
     Inl (Exception ''execution reverted'') \<and>
   fst (invoke_contract_function world_mint_down (Some (Provider 0)) ''crosschainMint''
          (Some [Str ''0x1234'', Num 50]) 0 (started world_up)) =
     Inr [(''error'', Str ''execution reverted'')] \<and>
   wait_for_transaction_receipt world_receipt_down (Provider 0) ''0xb1''
       (Suc (Suc (clock (started world_up)))) = Inl (Exception ''timeout'') \<and>
   fst (invoke_contract_function world_receipt_down (Some (Provider 0)) ''crosschainMint''
          (Some [Str ''0x1234'', Num 50]) 0 (started world_up)) =
     Inr [(''error'', Str ''timeout'')]"
proof -
  let ?args = "Some [Str ''0x1234'', Num 50]"
  let ?addr = "''0xEBE8Ca83dfFeaa2288a70B4f1e29EcD089d325E2''"
  let ?net = "\<lparr>chain_id = ''84532'', network_id = None\<rparr>"
  have net: "get_network world_mint_down (Provider 0) (clock (started world_up)) = Inr ?net"
    and net': "get_network world_receipt_down (Provider 0) (clock (started world_up)) = Inr ?net"
    by (simp_all add: world_defs)
  have addr: "get_contract_address (started world_up) = Inr ?addr"
    by (simp add: get_contract_address_def started_chain SUPPORTED_CHAINS_def)
  have submit: "transact_contract world_mint_down (Provider 0) ?addr CROSSCHAIN_CONTRACT_ABI
       ''crosschainMint'' [Str ''0x1234'', Num 50] 0 (Suc (clock (started world_up))) =
     Inl (Exception ''execution reverted'')"
    and submit': "transact_contract world_receipt_down (Provider 0) ?addr CROSSCHAIN_CONTRACT_ABI
       ''crosschainMint'' [Str ''0x1234'', Num 50] 0 (Suc (clock (started world_up))) =
     Inr ''0xb1''"
    and wait: "wait_for_transaction_receipt world_receipt_down (Provider 0) ''0xb1''
       (Suc (Suc (clock (started world_up)))) = Inl (Exception ''timeout'')"
    by (simp_all add: world_defs)
  have body: "fst (invoke_contract_function_try world_mint_down (Some (Provider 0))
          ''crosschainMint'' ?args 0 (started world_up)) = Inl (Exception ''execution reverted'')"
    using net addr submit
    by (simp add: invoke_contract_function_try_def call_get_network_def
          call_transact_contract_def started_chain)
  from invoke_contract_function_catches
         [of world_mint_down "Some (Provider 0)" "''crosschainMint''" ?args 0 "started world_up"
             "Exception ''execution reverted''"
             "snd (invoke_contract_function_try world_mint_down (Some (Provider 0))
                     ''crosschainMint'' ?args 0 (started world_up))"
             "Provider 0" ?net ?addr "Exception ''execution reverted''"]
       net addr submit body
  have one: "fst (invoke_contract_function world_mint_down (Some (Provider 0)) ''crosschainMint''
          ?args 0 (started world_up)) = Inr [(''error'', Str ''execution reverted'')]"
    by (simp add: started_chain)
  from invoke_contract_function_catches
         [of world_receipt_down "Some (Provider 0)" "''crosschainMint''" ?args 0
             "started world_up" _ _ "Provider 0" ?net ?addr _ "''0xb1''" "Exception ''timeout''"]
       net' addr submit' wait
  have two: "fst (invoke_contract_function world_receipt_down (Some (Provider 0))
          ''crosschainMint'' ?args 0 (started world_up)) = Inr [(''error'', Str ''timeout'')]"
    by (simp add: started_chain)
  from net addr submit body one wait two show ?thesis by simp
qed





subsection \<open>Bridging\<close>




end
